theory Spec2Isabelle
  imports Main
begin

section \<open>Backend: model, repository and response helpers\<close>

text \<open>
  The backend generator (\<^verbatim>\<open>go-simple-structure.sh\<close>) emits Go sources. The user row of
  \<^verbatim>\<open>models/user.go\<close> is a record; the time stamps and the order relation are never read
  by the code modelled below and are left out.
\<close>

record User =
  ID :: string
  Email :: string
  Name :: string
  Password :: string
  Role :: string
  IsActive :: bool

text \<open>
  The database behind \<^verbatim>\<open>gorm\<close>: the rows of the user table, and a fault (a lost
  connection, say) that makes a query return an error other than "record not found".
\<close>

datatype gorm_error = ErrRecordNotFound | ErrQuery string

record DB =
  users :: "User list"
  fault :: "string option"

text \<open>
  \<^verbatim>\<open>r.db.Where("email = ?", email).First(&user).Error\<close>. The e-mail column has a
  unique index, so at most one row matches and the order of the rows does not matter.
\<close>

definition First_by_email :: "DB \<Rightarrow> string \<Rightarrow> gorm_error + User" where
  "First_by_email db email =
     (case fault db of
        Some e \<Rightarrow> Inl (ErrQuery e)
      | None \<Rightarrow>
         (case find (\<lambda>u. Email u = email) (users db) of
            None \<Rightarrow> Inl ErrRecordNotFound
          | Some u \<Rightarrow> Inr u))"

text \<open>
  \<^verbatim>\<open>UserRepository.GetByEmail\<close> returns the pair (pointer, error) of the Go function:
  a missing row gives \<^verbatim>\<open>nil, nil\<close>.
\<close>

definition GetByEmail :: "DB \<Rightarrow> string \<Rightarrow> User option \<times> gorm_error option" where
  "GetByEmail db email =
     (case First_by_email db email of
        Inl err \<Rightarrow>
          (if err = ErrRecordNotFound then (None, None) else (None, Some err))
      | Inr user \<Rightarrow> (Some user, None))"

section \<open>Backend: the JWT helper\<close>

text \<open>
  Instants are nanoseconds since the Unix epoch, as \<^verbatim>\<open>time.Time\<close> has them.
  \<^verbatim>\<open>jwt.NewNumericDate\<close> truncates an instant to whole seconds, which is what the
  token carries.
\<close>

definition Second :: int where
  "Second = 1000000000"

definition Hour :: int where
  "Hour = 3600 * Second"

definition NewNumericDate :: "int \<Rightarrow> int" where
  "NewNumericDate t = t div Second"

text \<open>\<^verbatim>\<open>Claims\<close>: the three custom claims and the registered ones this code sets. A
  registered date is a pointer, absent in a token that does not carry it.\<close>

record Claims =
  UserID :: string
  claim_Email :: string
  claim_Role :: string
  ExpiresAt :: "int option"
  IssuedAt :: "int option"
  NotBefore :: "int option"

text \<open>
  The \<^verbatim>\<open>alg\<close> header of a token: the three HMAC methods, any other method the
  library has registered (RSA, ECDSA, EdDSA, none), and a name it does not know.
\<close>

datatype alg = HS256 | HS384 | HS512 | NotHMAC | Unavailable

text \<open>
  A Go string, as far as the token code can tell strings apart: the compact serialisation
  of a signed token, identified with the header, claims and signature it decodes to, or
  any other text. The keyed hash itself is a parameter \<open>hmac key (header, claims)\<close> of
  the functions below: the MAC of the signing string under the hash the header names.
\<close>

datatype 'sig gostring = Text string | Compact alg Claims 'sig

record 'sig Token =
  Method :: alg
  TokenClaims :: Claims
  Signature :: "'sig option"
  Valid :: bool

datatype claim_error = ErrTokenExpired | ErrTokenNotValidYet

datatype jwt_error =
    ErrTokenMalformed
  | ErrTokenUnverifiable
  | ErrTokenSignatureInvalid
  | ErrTokenInvalidClaims "claim_error list"
  | ErrInvalidKeyType
  | ErrInvalidToken

definition jwtSecret :: string where
  "jwtSecret = ''your-secret-key''"

definition NewWithClaims :: "alg \<Rightarrow> Claims \<Rightarrow> 'sig Token" where
  "NewWithClaims method claims =
     \<lparr>Method = method, TokenClaims = claims, Signature = None, Valid = False\<rparr>"

text \<open>
  The claims travel as JSON. \<^verbatim>\<open>json.Marshal\<close> coerces a Go string to valid UTF-8: it
  walks the bytes with \<^verbatim>\<open>utf8.DecodeRuneInString\<close> and writes the replacement rune
  U+FFFD for every byte that does not start a well-formed encoding; decoding gives those
  coerced bytes back. \<open>DecodeRune b0 bs\<close> is the width of the well-formed encoding that
  starts with the byte \<open>b0\<close>, followed by \<open>bs\<close>, if there is one.
\<close>

definition byte :: "char \<Rightarrow> nat" where
  "byte c = of_char c"

definition between :: "nat \<Rightarrow> nat \<Rightarrow> char \<Rightarrow> bool" where
  "between lo hi c = (lo \<le> byte c \<and> byte c \<le> hi)"

definition RuneError :: string where
  "RuneError = [CHR 0xEF, CHR 0xBF, CHR 0xBD]"

definition DecodeRune :: "char \<Rightarrow> string \<Rightarrow> nat option" where
  "DecodeRune b0 bs =
     (if byte b0 < 0x80 then Some 1
      else if between 0xC2 0xDF b0
      then (case bs of
              b1 # _ \<Rightarrow> (if between 0x80 0xBF b1 then Some 2 else None)
            | _ \<Rightarrow> None)
      else if between 0xE0 0xEF b0
      then (case bs of
              b1 # b2 # _ \<Rightarrow>
                (if between (if byte b0 = 0xE0 then 0xA0 else 0x80)
                            (if byte b0 = 0xED then 0x9F else 0xBF) b1
                    \<and> between 0x80 0xBF b2
                 then Some 3 else None)
            | _ \<Rightarrow> None)
      else if between 0xF0 0xF4 b0
      then (case bs of
              b1 # b2 # b3 # _ \<Rightarrow>
                (if between (if byte b0 = 0xF0 then 0x90 else 0x80)
                            (if byte b0 = 0xF4 then 0x8F else 0xBF) b1
                    \<and> between 0x80 0xBF b2 \<and> between 0x80 0xBF b3
                 then Some 4 else None)
            | _ \<Rightarrow> None)
      else None)"

definition DecodeRuneInString :: "string \<Rightarrow> nat option" where
  "DecodeRuneInString s = (case s of [] \<Rightarrow> None | b0 # bs \<Rightarrow> DecodeRune b0 bs)"

text \<open>
  \<open>coerce k s\<close> copies the \<open>k\<close> bytes that remain of an encoding already found
  well-formed, and then decodes rune by rune. \<open>json_string\<close> is what a string reads as
  after encoding and decoding; \<open>ValidString\<close> is \<^verbatim>\<open>utf8.ValidString\<close>.
\<close>

fun coerce :: "nat \<Rightarrow> string \<Rightarrow> string" where
  "coerce k [] = []"
| "coerce (Suc k) (b # bs) = b # coerce k bs"
| "coerce 0 (b # bs) =
     (case DecodeRuneInString (b # bs) of
        None \<Rightarrow> RuneError @ coerce 0 bs
      | Some n \<Rightarrow> b # coerce (n - 1) bs)"

fun valid_from :: "nat \<Rightarrow> string \<Rightarrow> bool" where
  "valid_from k [] = True"
| "valid_from (Suc k) (b # bs) = valid_from k bs"
| "valid_from 0 (b # bs) =
     (case DecodeRuneInString (b # bs) of
        None \<Rightarrow> False
      | Some n \<Rightarrow> valid_from (n - 1) bs)"

definition json_string :: "string \<Rightarrow> string" where
  "json_string s = coerce 0 s"

definition ValidString :: "string \<Rightarrow> bool" where
  "ValidString s = valid_from 0 s"

definition json_Claims :: "Claims \<Rightarrow> Claims" where
  "json_Claims claims =
     claims\<lparr>UserID := json_string (UserID claims),
            claim_Email := json_string (claim_Email claims),
            claim_Role := json_string (claim_Role claims)\<rparr>"

text \<open>
  \<^verbatim>\<open>token.SignedString(key)\<close>: the claims are encoded as JSON, and the signing string
  is what the MAC is taken of. An HMAC method signs with any byte-slice key; the other
  methods refuse one.
\<close>

definition SignedString ::
  "(string \<Rightarrow> alg \<times> Claims \<Rightarrow> 'sig) \<Rightarrow> 'sig Token \<Rightarrow> string \<Rightarrow> jwt_error + 'sig gostring" where
  "SignedString hmac token key =
     (if Method token \<in> {HS256, HS384, HS512}
      then Inr (Compact (Method token) (json_Claims (TokenClaims token))
                  (hmac key (Method token, json_Claims (TokenClaims token))))
      else Inl ErrInvalidKeyType)"

text \<open>
  \<^verbatim>\<open>GenerateJWT(userID, email, role)\<close>. The struct literal calls \<^verbatim>\<open>time.Now()\<close>
  three times, in the order of its fields: \<open>t_exp\<close>, \<open>t_iat\<close> and \<open>t_nbf\<close> are
  those three readings of the clock.
\<close>

definition GenerateJWT ::
  "(string \<Rightarrow> alg \<times> Claims \<Rightarrow> 'sig) \<Rightarrow> int \<Rightarrow> int \<Rightarrow> int \<Rightarrow>
   string \<Rightarrow> string \<Rightarrow> string \<Rightarrow> jwt_error + 'sig gostring" where
  "GenerateJWT hmac t_exp t_iat t_nbf userID email role =
     (let claims = \<lparr>UserID = userID, claim_Email = email, claim_Role = role,
                     ExpiresAt = Some (NewNumericDate (t_exp + 24 * Hour)),
                     IssuedAt = Some (NewNumericDate t_iat),
                     NotBefore = Some (NewNumericDate t_nbf)\<rparr>;
          token = NewWithClaims HS256 claims
      in SignedString hmac token jwtSecret)"

text \<open>
  The library's validator (v5, default options: no leeway, \<^verbatim>\<open>iat\<close> not checked):
  \<^verbatim>\<open>now.Before(exp)\<close> must hold, and \<^verbatim>\<open>now.Before(nbf)\<close> must not; every failure
  is collected.
\<close>

definition verifyExpiresAt :: "Claims \<Rightarrow> int \<Rightarrow> claim_error list" where
  "verifyExpiresAt claims now =
     (case ExpiresAt claims of
        None \<Rightarrow> []
      | Some exp \<Rightarrow> (if now < exp * Second then [] else [ErrTokenExpired]))"

definition verifyNotBefore :: "Claims \<Rightarrow> int \<Rightarrow> claim_error list" where
  "verifyNotBefore claims now =
     (case NotBefore claims of
        None \<Rightarrow> []
      | Some nbf \<Rightarrow> (if now < nbf * Second then [ErrTokenNotValidYet] else []))"

definition Validate :: "Claims \<Rightarrow> int \<Rightarrow> claim_error list" where
  "Validate claims now = verifyExpiresAt claims now @ verifyNotBefore claims now"

text \<open>
  \<^verbatim>\<open>jwt.ParseWithClaims(tokenString, &Claims{}, keyFunc)\<close>: split and decode, look the
  method up, verify the signature with the key \<open>keyFunc\<close> gives (a byte slice verifies
  under an HMAC method only), then validate the claims at the instant \<open>now\<close>.
\<close>

definition ParseWithClaims ::
  "(string \<Rightarrow> alg \<times> Claims \<Rightarrow> 'sig) \<Rightarrow> int \<Rightarrow> 'sig gostring \<Rightarrow>
   ('sig Token \<Rightarrow> string) \<Rightarrow> jwt_error + 'sig Token" where
  "ParseWithClaims hmac now tokenString keyFunc =
     (case tokenString of
        Text s \<Rightarrow> Inl ErrTokenMalformed
      | Compact a claims sig \<Rightarrow>
          (let token = \<lparr>Method = a, TokenClaims = claims, Signature = Some sig,
                        Valid = False\<rparr>
           in if a = Unavailable then Inl ErrTokenUnverifiable
              else if a = NotHMAC then Inl ErrTokenSignatureInvalid
              else if sig = hmac (keyFunc token) (a, claims)
              then (case Validate claims now of
                      [] \<Rightarrow> Inr (token\<lparr>Valid := True\<rparr>)
                    | e # es \<Rightarrow> Inl (ErrTokenInvalidClaims (e # es)))
              else Inl ErrTokenSignatureInvalid))"

text \<open>\<^verbatim>\<open>ValidateJWT(tokenString)\<close>, reading the clock once, inside the library.\<close>

definition ValidateJWT ::
  "(string \<Rightarrow> alg \<times> Claims \<Rightarrow> 'sig) \<Rightarrow> int \<Rightarrow> 'sig gostring \<Rightarrow> jwt_error + Claims" where
  "ValidateJWT hmac now tokenString =
     (case ParseWithClaims hmac now tokenString (\<lambda>token. jwtSecret) of
        Inl err \<Rightarrow> Inl err
      | Inr token \<Rightarrow>
          (if Valid token then Inr (TokenClaims token) else Inl ErrInvalidToken))"

section \<open>Backend: handlers and middlewares\<close>

text \<open>
  What a handler does with a request: it sends a response (status code and JSON body),
  passes the request on with \<^verbatim>\<open>c.Next()\<close>, or panics. The context carries the
  \<^verbatim>\<open>Authorization\<close> header, given as the pieces \<^verbatim>\<open>strings.Split(authHeader, " ")\<close>
  cuts it into (the empty header is the one empty piece), and the locals.
\<close>

record 'sig Ctx =
  Authorization :: "'sig gostring list"
  Locals :: "string \<rightharpoonup> string"

record UserView =
  view_id :: string
  view_email :: string
  view_name :: string
  view_role :: string

datatype 'sig body =
    Response string string "('sig gostring \<times> UserView) option"
  | ValidationBody "(string \<times> string) list"

datatype 'sig outcome =
    Sent nat "'sig body"
  | Next "'sig Ctx"
  | Panic string

abbreviation (input) StatusOK :: nat where "StatusOK \<equiv> 200"
abbreviation (input) StatusBadRequest :: nat where "StatusBadRequest \<equiv> 400"
abbreviation (input) StatusUnauthorized :: nat where "StatusUnauthorized \<equiv> 401"
abbreviation (input) StatusForbidden :: nat where "StatusForbidden \<equiv> 403"
abbreviation (input) StatusInternalServerError :: nat where "StatusInternalServerError \<equiv> 500"

definition SuccessResponse ::
  "nat \<Rightarrow> string \<Rightarrow> 'sig gostring \<times> UserView \<Rightarrow> 'sig outcome" where
  "SuccessResponse code message data = Sent code (Response ''success'' message (Some data))"

definition ErrorResponse :: "nat \<Rightarrow> string \<Rightarrow> 'sig outcome" where
  "ErrorResponse code message = Sent code (Response ''error'' message None)"

definition ValidationErrorResponse :: "(string \<times> string) list \<Rightarrow> 'sig outcome" where
  "ValidationErrorResponse errors = Sent StatusBadRequest (ValidationBody errors)"

text \<open>
  The login input and its validation tags (\<^verbatim>\<open>required,email\<close> and \<^verbatim>\<open>required\<close>):
  the result lists the failed (field, tag) pairs, empty when \<^verbatim>\<open>ValidateStruct\<close>
  returns nil. The validator's e-mail pattern is the parameter \<open>is_email\<close>.
\<close>

record LoginInput =
  input_Email :: string
  input_Password :: string

definition ValidateStruct :: "(string \<Rightarrow> bool) \<Rightarrow> LoginInput \<Rightarrow> (string \<times> string) list" where
  "ValidateStruct is_email input =
     (if input_Email input = [] then [(''Email'', ''required'')]
      else if is_email (input_Email input) then [] else [(''Email'', ''email'')])
     @ (if input_Password input = [] then [(''Password'', ''required'')] else [])"

text \<open>
  The libraries \<^verbatim>\<open>AuthHandler.Login\<close> calls: the validator's e-mail rule,
  \<^verbatim>\<open>bcrypt.CompareHashAndPassword(hash, password)\<close> (true when it returns nil) and the
  keyed hash of the token library.
\<close>

record 'sig Libs =
  is_email :: "string \<Rightarrow> bool"
  CompareHashAndPassword :: "string \<Rightarrow> string \<Rightarrow> bool"
  hmac :: "string \<Rightarrow> alg \<times> Claims \<Rightarrow> 'sig"

definition nil_dereference :: string where
  "nil_dereference = ''runtime error: invalid memory address or nil pointer dereference''"

text \<open>
  \<^verbatim>\<open>AuthHandler.Login\<close>. The body is what \<^verbatim>\<open>c.BodyParser\<close> makes of the request
  (\<open>None\<close> when it fails). Reading \<^verbatim>\<open>user.Password\<close> through a nil pointer panics.
\<close>

definition Login ::
  "'sig Libs \<Rightarrow> int \<Rightarrow> int \<Rightarrow> int \<Rightarrow> DB \<Rightarrow> LoginInput option \<Rightarrow> 'sig outcome" where
  "Login lib t_exp t_iat t_nbf db body =
     (case body of
        None \<Rightarrow> ErrorResponse StatusBadRequest ''Invalid input''
      | Some input \<Rightarrow>
          (case ValidateStruct (is_email lib) input of
             e # es \<Rightarrow> ValidationErrorResponse (e # es)
           | [] \<Rightarrow>
               (case GetByEmail db (input_Email input) of
                  (user, Some err) \<Rightarrow> ErrorResponse StatusUnauthorized ''Invalid credentials''
                | (None, None) \<Rightarrow> Panic nil_dereference
                | (Some user, None) \<Rightarrow>
                    (if CompareHashAndPassword lib (Password user) (input_Password input)
                     then (if IsActive user
                           then (case GenerateJWT (hmac lib) t_exp t_iat t_nbf
                                        (ID user) (Email user) (Role user) of
                                   Inl err \<Rightarrow>
                                     ErrorResponse StatusInternalServerError
                                       ''Failed to generate token''
                                 | Inr token \<Rightarrow>
                                     SuccessResponse StatusOK ''Login successful''
                                       (token,
                                        \<lparr>view_id = ID user, view_email = Email user,
                                         view_name = Name user, view_role = Role user\<rparr>))
                           else ErrorResponse StatusForbidden ''Account is inactive'')
                     else ErrorResponse StatusUnauthorized ''Invalid credentials''))))"

text \<open>
  \<^verbatim>\<open>main.go\<close> installs \<^verbatim>\<open>recover.New()\<close> and \<^verbatim>\<open>customErrorHandler\<close>: a panic of
  a handler reaches the client as status 500 with the error's text.
\<close>

definition customErrorHandler :: "string \<Rightarrow> 'sig outcome" where
  "customErrorHandler err = Sent StatusInternalServerError (Response ''error'' err None)"

definition recover_New :: "'sig outcome \<Rightarrow> 'sig outcome" where
  "recover_New result = (case result of Panic err \<Rightarrow> customErrorHandler err | _ \<Rightarrow> result)"

text \<open>\<^verbatim>\<open>AuthMiddleware\<close>, steps 1 to 5.\<close>

definition AuthMiddleware ::
  "(string \<Rightarrow> alg \<times> Claims \<Rightarrow> 'sig) \<Rightarrow> int \<Rightarrow> 'sig Ctx \<Rightarrow> 'sig outcome" where
  "AuthMiddleware mac now c =
     (let parts = Authorization c
      in if parts = [Text []]
         then Sent StatusUnauthorized (Response ''error'' ''Authorization header required'' None)
         else (case parts of
                 [p0, token] \<Rightarrow>
                   (if p0 = Text ''Bearer''
                    then (case ValidateJWT mac now token of
                            Inl err \<Rightarrow>
                              Sent StatusUnauthorized
                                (Response ''error'' ''Invalid or expired token'' None)
                          | Inr claims \<Rightarrow>
                              Next (c\<lparr>Locals := (Locals c)
                                      (''user_id'' \<mapsto> UserID claims,
                                       ''email'' \<mapsto> claim_Email claims,
                                       ''role'' \<mapsto> claim_Role claims)\<rparr>))
                    else Sent StatusUnauthorized
                           (Response ''error'' ''Invalid authorization format'' None))
               | _ \<Rightarrow>
                   Sent StatusUnauthorized
                     (Response ''error'' ''Invalid authorization format'' None)))"

text \<open>\<^verbatim>\<open>AdminOnly\<close>: the one scope check of the backend.\<close>

definition AdminOnly :: "'sig Ctx \<Rightarrow> 'sig outcome" where
  "AdminOnly c =
     (case Locals c ''role'' of
        None \<Rightarrow> Sent StatusUnauthorized (Response ''error'' ''Unauthorized'' None)
      | Some role \<Rightarrow>
          (if role \<noteq> ''admin''
           then Sent StatusForbidden (Response ''error'' ''Admin access required'' None)
           else Next c))"

section \<open>Frontend: the API client and the auth store\<close>

text \<open>
  The state of the browser tab that the generated frontend touches: the
  \<^verbatim>\<open>localStorage\<close> of the origin, \<^verbatim>\<open>window.location.href\<close>, and the three refs of
  the Pinia store \<^verbatim>\<open>useAuthStore\<close>. A token is \<^verbatim>\<open>string | null\<close>.
\<close>

record AuthUser =
  user_id :: string
  user_name :: string
  user_email :: string

record AuthResponse =
  response_token :: string
  response_user :: AuthUser

record LoginCredentials =
  email :: string
  password :: string

record Client =
  localStorage :: "string \<rightharpoonup> string"
  href :: string
  token :: "string option"
  user :: "AuthUser option"
  loading :: bool

text \<open>
  An outgoing request, and what comes back from the transport: a response of the 2xx
  class with its data, or an error with \<^verbatim>\<open>error.response?.status\<close> (absent when no
  response arrived).
\<close>

record 'd Request =
  url :: string
  headers :: "string \<rightharpoonup> string"
  data :: "'d option"

datatype 'a reply = Fulfilled 'a | Rejected "nat option"

text \<open>The request interceptor of \<^verbatim>\<open>api/client.ts\<close>: a truthy stored token is attached.\<close>

definition request_interceptor :: "Client \<Rightarrow> 'd Request \<Rightarrow> 'd Request" where
  "request_interceptor c config =
     (case localStorage c ''token'' of
        None \<Rightarrow> config
      | Some t \<Rightarrow>
          (if t = [] then config
           else config\<lparr>headers := (headers config)(''Authorization'' \<mapsto> ''Bearer '' @ t)\<rparr>))"

text \<open>
  The response interceptor, \<^verbatim>\<open>client.interceptors.response.use(onFulfilled, onRejected)\<close>.
  The first handler returns \<^verbatim>\<open>response.data\<close>. The second is given the error, of
  which it reads \<^verbatim>\<open>error.response?.status\<close>: on 401 it removes the stored token and
  sets the location to the login page; it always rethrows, by \<^verbatim>\<open>Promise.reject(error)\<close>.
  \<open>onRejected\<close> is its effect on the state.
\<close>

definition onRejected :: "nat option \<Rightarrow> Client \<Rightarrow> Client" where
  "onRejected status c =
     (if status = Some 401
      then c\<lparr>localStorage := (localStorage c)(''token'' := None), href := ''/login''\<rparr>
      else c)"

definition response_interceptor :: "'a reply \<Rightarrow> Client \<Rightarrow> Client \<times> (nat option + 'a)" where
  "response_interceptor r c =
     (case r of
        Fulfilled d \<Rightarrow> (c, Inr d)
      | Rejected status \<Rightarrow> (onRejected status c, Inl status))"

definition client_post ::
  "('d Request \<Rightarrow> 'a reply) \<Rightarrow> string \<Rightarrow> 'd \<Rightarrow> Client \<Rightarrow> Client \<times> (nat option + 'a)" where
  "client_post transport path d c =
     response_interceptor
       (transport (request_interceptor c \<lparr>url = path, headers = Map.empty, data = Some d\<rparr>)) c"

definition authApi_login ::
  "(LoginCredentials Request \<Rightarrow> AuthResponse reply) \<Rightarrow> LoginCredentials \<Rightarrow> Client \<Rightarrow>
   Client \<times> (nat option + AuthResponse)" where
  "authApi_login transport credentials c = client_post transport ''/auth/login'' credentials c"

text \<open>
  The setup function of \<^verbatim>\<open>useAuthStore\<close>, which runs when the application starts in a
  freshly loaded document, and the computed \<^verbatim>\<open>isAuthenticated\<close>, \<^verbatim>\<open>!!token.value\<close>:
  null and the empty string are falsy.
\<close>

definition useAuthStore :: "Client \<Rightarrow> Client" where
  "useAuthStore c = c\<lparr>token := localStorage c ''token'', user := None, loading := False\<rparr>"

definition isAuthenticated :: "Client \<Rightarrow> bool" where
  "isAuthenticated c = (case token c of None \<Rightarrow> False | Some t \<Rightarrow> t \<noteq> [])"

text \<open>
  \<^verbatim>\<open>login\<close>: the result is \<open>Inr ()\<close> when the promise resolves and \<open>Inl e\<close> when it
  rejects with \<open>e\<close>; the \<^verbatim>\<open>finally\<close> block runs on both paths.
\<close>

definition login ::
  "(LoginCredentials Request \<Rightarrow> AuthResponse reply) \<Rightarrow> LoginCredentials \<Rightarrow> Client \<Rightarrow>
   Client \<times> (nat option + unit)" where
  "login transport credentials c =
     (case authApi_login transport credentials (c\<lparr>loading := True\<rparr>) of
        (c', Inr response) \<Rightarrow>
          (c'\<lparr>token := Some (response_token response),
              user := Some (response_user response),
              localStorage := (localStorage c')(''token'' \<mapsto> response_token response),
              loading := False\<rparr>,
           Inr ())
      | (c', Inl err) \<Rightarrow> (c'\<lparr>loading := False\<rparr>, Inl err))"

definition logout :: "Client \<Rightarrow> Client" where
  "logout c =
     c\<lparr>token := None, user := None, localStorage := (localStorage c)(''token'' := None)\<rparr>"

text \<open>
  Assigning \<^verbatim>\<open>window.location.href\<close> loads a document: the script state of the old one
  is gone, \<^verbatim>\<open>localStorage\<close> stays, and the store is set up again.
\<close>

definition load_page :: "Client \<Rightarrow> Client" where
  "load_page c = useAuthStore c"

section \<open>Concrete instances\<close>

text \<open>Stand-ins for the libraries, a user table and a browser state, to run the model on.\<close>

definition plain_libs :: "string Libs" where
  "plain_libs =
     \<lparr>is_email = (\<lambda>s. CHR ''@'' \<in> set s),
      CompareHashAndPassword = (\<lambda>h p. h = ''hashed:'' @ p),
      hmac = (\<lambda>key (a, claims). key @ UserID claims @ claim_Role claims)\<rparr>"

definition alice :: User where
  "alice = \<lparr>ID = ''u1'', Email = ''alice@example.com'', Name = ''Alice'',
            Password = ''hashed:correctpw'', Role = ''user'', IsActive = True\<rparr>"

definition bob :: User where
  "bob = \<lparr>ID = ''u2'', Email = ''bob@example.com'', Name = ''Bob'',
          Password = ''hashed:bobspw'', Role = ''user'', IsActive = False\<rparr>"

definition table :: DB where
  "table = \<lparr>users = [alice, bob], fault = None\<rparr>"

definition signed_in :: Client where
  "signed_in =
     \<lparr>localStorage = [''token'' \<mapsto> ''t0''], href = ''/users'', token = Some ''t0'',
      user = Some \<lparr>user_id = ''u1'', user_name = ''Alice'', user_email = ''alice@example.com''\<rparr>,
      loading = False\<rparr>"

definition alice_claims :: Claims where
  "alice_claims =
     \<lparr>UserID = ''u1'', claim_Email = ''alice@example.com'', claim_Role = ''user'',
      ExpiresAt = Some 86400, IssuedAt = Some 0, NotBefore = Some 0\<rparr>"

definition alice_token :: "string gostring" where
  "alice_token = Compact HS256 alice_claims ''your-secret-keyu1user''"

definition boundary_claims :: Claims where
  "boundary_claims =
     \<lparr>UserID = ''u1'', claim_Email = ''alice@example.com'', claim_Role = ''user'',
      ExpiresAt = Some 86400, IssuedAt = Some 1, NotBefore = Some 1\<rparr>"

definition boundary_token :: "string gostring" where
  "boundary_token = Compact HS256 boundary_claims ''your-secret-keyu1user''"

definition alice_request :: "string Ctx" where
  "alice_request = \<lparr>Authorization = [Text ''Bearer'', alice_token], Locals = Map.empty\<rparr>"

definition alice_admitted :: "string Ctx" where
  "alice_admitted =
     alice_request\<lparr>Locals :=
       [''user_id'' \<mapsto> ''u1'', ''email'' \<mapsto> ''alice@example.com'', ''role'' \<mapsto> ''user'']\<rparr>"

definition remembered_empty :: Client where
  "remembered_empty =
     \<lparr>localStorage = [''token'' \<mapsto> ''''], href = ''/'', token = None, user = None,
      loading = False\<rparr>"

definition alice_credentials :: LoginCredentials where
  "alice_credentials = \<lparr>email = ''alice@example.com'', password = ''wrong-secret''\<rparr>"

definition early_claims :: Claims where
  "early_claims =
     \<lparr>UserID = ''u1'', claim_Email = ''alice@example.com'', claim_Role = ''user'',
      ExpiresAt = Some 86410, IssuedAt = Some 10, NotBefore = Some 10\<rparr>"

definition early_token :: "string gostring" where
  "early_token = Compact HS256 early_claims ''your-secret-keyu1user''"

definition replaced_claims :: Claims where
  "replaced_claims =
     \<lparr>UserID = RuneError, claim_Email = ''alice@example.com'', claim_Role = ''user'',
      ExpiresAt = Some 86400, IssuedAt = Some 0, NotBefore = Some 0\<rparr>"

definition replaced_token :: "string gostring" where
  "replaced_token = Compact HS256 replaced_claims (''your-secret-key'' @ RuneError @ ''user'')"

definition crossing_claims :: Claims where
  "crossing_claims =
     \<lparr>UserID = ''u2'', claim_Email = ''bob@example.com'', claim_Role = ''user'',
      ExpiresAt = Some 86401, IssuedAt = Some 2, NotBefore = Some 2\<rparr>"

definition crossing_token :: "string gostring" where
  "crossing_token = Compact HS256 crossing_claims ''your-secret-keyu2user''"

section \<open>Login: lookup, secret, active flag\<close>

lemma GetByEmail_absent:
  assumes "fault db = None" and "\<forall>u \<in> set (users db). Email u \<noteq> e"
  shows "GetByEmail db e = (None, None)"
proof -
  from assms(2) have "find (\<lambda>u. Email u = e) (users db) = None"
    by (simp add: find_None_iff)
  with assms(1) show ?thesis
    by (simp add: GetByEmail_def First_by_email_def)
qed

text \<open>
  Claim C1 (enumeration resistance) asks that a login with an identifier that is not in
  the store answers as a login with a wrong secret does: 401, "Invalid credentials".
  The handler does not: \<open>GetByEmail\<close> answers a missing row with \<open>(nil, nil)\<close>,
  the handler tests the error only, and reading the password through the nil pointer
  panics. Behind \<open>recover_New\<close> the caller sees status 500 and the text of the runtime
  error, which tells an unknown identifier from a wrong secret.
\<close>

theorem C1_unknown_identifier_panics:
  assumes "ValidateStruct (is_email lib) input = []"
    and "fault db = None"
    and "\<forall>u \<in> set (users db). Email u \<noteq> input_Email input"
  shows "Login lib t1 t2 t3 db (Some input) = Panic nil_dereference
     \<and> recover_New (Login lib t1 t2 t3 db (Some input))
         = Sent StatusInternalServerError (Response ''error'' nil_dereference None)
     \<and> Login lib t1 t2 t3 db (Some input)
         \<noteq> ErrorResponse StatusUnauthorized ''Invalid credentials''"
  using assms(1) GetByEmail_absent [OF assms(2,3)]
  by (simp add: Login_def recover_New_def customErrorHandler_def ErrorResponse_def)

text \<open>
  The two logins of the claim, run: nobody is in the table and the login panics; alice is,
  and her wrong secret is answered with 401.
\<close>

theorem C1_unknown_identifier_panics_witness:
  "Login plain_libs 0 0 0 table
       (Some \<lparr>input_Email = ''nobody@example.com'', input_Password = ''anything''\<rparr>)
     = Panic nil_dereference
   \<and> recover_New (Login plain_libs 0 0 0 table
       (Some \<lparr>input_Email = ''nobody@example.com'', input_Password = ''anything''\<rparr>))
     = Sent StatusInternalServerError (Response ''error'' nil_dereference None)
   \<and> Login plain_libs 0 0 0 table
       (Some \<lparr>input_Email = ''alice@example.com'', input_Password = ''wrong-secret''\<rparr>)
     = (Sent StatusUnauthorized (Response ''error'' ''Invalid credentials'' None) :: string outcome)"
proof -
  let ?input = "\<lparr>input_Email = ''nobody@example.com'', input_Password = ''anything''\<rparr>"
  have v: "ValidateStruct (is_email plain_libs) ?input = []"
    by (simp add: ValidateStruct_def plain_libs_def)
  have f: "fault table = None"
    by (simp add: table_def)
  have a: "\<forall>u \<in> set (users table). Email u \<noteq> input_Email ?input"
    by (simp add: table_def alice_def bob_def)
  have w: "Login plain_libs 0 0 0 table
       (Some \<lparr>input_Email = ''alice@example.com'', input_Password = ''wrong-secret''\<rparr>)
     = (Sent StatusUnauthorized (Response ''error'' ''Invalid credentials'' None) :: string outcome)"
    by (simp add: Login_def ValidateStruct_def plain_libs_def GetByEmail_def First_by_email_def
        table_def alice_def bob_def ErrorResponse_def)
  from C1_unknown_identifier_panics [OF v f a, of 0 0 0] w show ?thesis
    by (simp add: recover_New_def customErrorHandler_def)
qed




section \<open>The scope check behind the authentication middleware\<close>

text \<open>
  Claim C4. A request that \<open>AuthMiddleware\<close> has admitted carries a role, and
  \<open>AdminOnly\<close>, the scope check, lets it pass when the role is the required one and
  answers 403 Forbidden when it is not; for an admitted request it never answers 401
  Unauthorized.
\<close>

theorem C4_scope_check_after_authentication:
  assumes "AuthMiddleware mac now c = Next c'"
  shows "Locals c' ''role'' \<noteq> None
    \<and> AdminOnly c' =
        (if Locals c' ''role'' = Some ''admin'' then Next c'
         else Sent StatusForbidden (Response ''error'' ''Admin access required'' None))
    \<and> (\<forall>b. AdminOnly c' \<noteq> Sent StatusUnauthorized b)"
  using assms
  by (auto simp add: AuthMiddleware_def AdminOnly_def Let_def
      split: if_splits list.splits sum.splits)

text \<open>Alice's token carries the role "user": admitted, then refused by the admin check.\<close>

theorem C4_scope_check_after_authentication_witness:
  "AuthMiddleware (hmac plain_libs) (10 * Second) alice_request = Next alice_admitted
   \<and> AdminOnly alice_admitted
       = Sent StatusForbidden (Response ''error'' ''Admin access required'' None)
   \<and> AdminOnly (alice_admitted\<lparr>Locals := (Locals alice_admitted)(''role'' \<mapsto> ''admin'')\<rparr>)
       = Next (alice_admitted\<lparr>Locals := (Locals alice_admitted)(''role'' \<mapsto> ''admin'')\<rparr>)"
proof -
  have m: "AuthMiddleware (hmac plain_libs) (10 * Second) alice_request = Next alice_admitted"
    by (simp add: AuthMiddleware_def alice_request_def alice_admitted_def ValidateJWT_def
        ParseWithClaims_def Validate_def verifyExpiresAt_def verifyNotBefore_def Second_def
        plain_libs_def jwtSecret_def alice_token_def alice_claims_def)
  have r: "Locals alice_admitted ''role'' = Some ''user''"
    by (simp add: alice_admitted_def)
  have a: "AdminOnly (alice_admitted\<lparr>Locals := (Locals alice_admitted)(''role'' \<mapsto> ''admin'')\<rparr>)
       = Next (alice_admitted\<lparr>Locals := (Locals alice_admitted)(''role'' \<mapsto> ''admin'')\<rparr>)"
    by (simp add: AdminOnly_def)
  from C4_scope_check_after_authentication [OF m] r m a show ?thesis
    by simp
qed

section \<open>The credential codec\<close>

lemma NewNumericDate_le: "NewNumericDate t * Second \<le> t"
  by (simp add: NewNumericDate_def Second_def)

lemma NewNumericDate_day: "NewNumericDate (t + 24 * Hour) = NewNumericDate t + 86400"
  by (simp add: NewNumericDate_def Hour_def Second_def)

lemma NewNumericDate_mono: "t \<le> t' \<Longrightarrow> NewNumericDate t \<le> NewNumericDate t'"
  by (simp add: NewNumericDate_def Second_def zdiv_mono1)

lemma coerce_valid: "valid_from k s \<Longrightarrow> coerce k s = s"
  by (induction k s rule: coerce.induct) (auto split: option.splits)

lemma json_string_valid: "ValidString s \<Longrightarrow> json_string s = s"
  by (simp add: json_string_def ValidString_def coerce_valid)

lemma example_strings_valid:
  "ValidString ''u1''" "ValidString ''u2''" "ValidString ''user''"
  "ValidString ''alice@example.com''" "ValidString ''bob@example.com''"
  by (simp_all add: ValidString_def DecodeRuneInString_def DecodeRune_def byte_def)

lemma GenerateJWT_eq:
  "GenerateJWT mac t_exp t_iat t_nbf userID mail role =
     Inr (Compact HS256
       \<lparr>UserID = json_string userID, claim_Email = json_string mail,
        claim_Role = json_string role,
        ExpiresAt = Some (NewNumericDate t_exp + 86400),
        IssuedAt = Some (NewNumericDate t_iat),
        NotBefore = Some (NewNumericDate t_nbf)\<rparr>
       (mac jwtSecret (HS256,
         \<lparr>UserID = json_string userID, claim_Email = json_string mail,
          claim_Role = json_string role,
          ExpiresAt = Some (NewNumericDate t_exp + 86400),
          IssuedAt = Some (NewNumericDate t_iat),
          NotBefore = Some (NewNumericDate t_nbf)\<rparr>)))"
  by (simp add: GenerateJWT_def SignedString_def NewWithClaims_def json_Claims_def
      NewNumericDate_day Let_def)

lemma ValidateJWT_signed:
  assumes "a \<in> {HS256, HS384, HS512}" and "sig = mac jwtSecret (a, claims)"
  shows "ValidateJWT mac now (Compact a claims sig) =
     (case Validate claims now of
        [] \<Rightarrow> Inr claims
      | e # es \<Rightarrow> Inl (ErrTokenInvalidClaims (e # es)))"
  using assms by (auto simp add: ValidateJWT_def ParseWithClaims_def split: list.splits)

lemma Validate_Nil_iff:
  "Validate cl now = [] \<longleftrightarrow>
     (case ExpiresAt cl of None \<Rightarrow> True | Some e \<Rightarrow> now < e * Second)
     \<and> (case NotBefore cl of None \<Rightarrow> True | Some n \<Rightarrow> n * Second \<le> now)"
  by (auto simp add: Validate_def verifyExpiresAt_def verifyNotBefore_def split: option.splits)

lemma ValidateJWT_Inr_iff:
  "ValidateJWT mac now (Compact a cl sg) = Inr cl' \<longleftrightarrow>
     cl' = cl \<and> a \<in> {HS256, HS384, HS512} \<and> sg = mac jwtSecret (a, cl)
     \<and> Validate cl now = []"
  by (cases a) (auto simp add: ValidateJWT_def ParseWithClaims_def split: list.splits)

lemma ValidateJWT_Text: "ValidateJWT mac now (Text s) = Inl ErrTokenMalformed"
  by (simp add: ValidateJWT_def ParseWithClaims_def)

lemma alice_token_generated:
  "GenerateJWT (hmac plain_libs) 0 0 0 ''u1'' ''alice@example.com'' ''user'' = Inr alice_token"
  by (simp add: GenerateJWT_eq json_string_valid example_strings_valid NewNumericDate_def
      Second_def plain_libs_def jwtSecret_def alice_token_def alice_claims_def)

text \<open>
  Against claim C2 as stated, twice. A token issued at second 10 is refused at second 5,
  an instant strictly before its \<open>ExpiresAt\<close>, as not valid yet. And a token issued for a
  user id that is the one byte FF, which is not UTF-8, verifies and returns the user id
  U+FFFD, not the one that was issued.
\<close>

theorem C2_round_trip_counterexample:
  "GenerateJWT (hmac plain_libs) (10 * Second) (10 * Second) (10 * Second)
       ''u1'' ''alice@example.com'' ''user'' = Inr early_token
   \<and> ExpiresAt early_claims = Some 86410
   \<and> 5 * Second < 86410 * Second
   \<and> ValidateJWT (hmac plain_libs) (5 * Second) early_token
       = Inl (ErrTokenInvalidClaims [ErrTokenNotValidYet])
   \<and> GenerateJWT (hmac plain_libs) 0 0 0 [CHR 0xFF] ''alice@example.com'' ''user''
       = Inr replaced_token
   \<and> ValidateJWT (hmac plain_libs) (10 * Second) replaced_token = Inr replaced_claims
   \<and> UserID replaced_claims \<noteq> [CHR 0xFF]"
  by (simp add: GenerateJWT_eq json_string_valid example_strings_valid
      json_string_def DecodeRuneInString_def DecodeRune_def byte_def between_def RuneError_def
      ValidateJWT_def ParseWithClaims_def Validate_def verifyExpiresAt_def verifyNotBefore_def
      NewNumericDate_def Second_def plain_libs_def jwtSecret_def
      early_token_def early_claims_def replaced_token_def replaced_claims_def)

text \<open>
  Claim C2, amended. \<open>GenerateJWT\<close>, whose lifetime is the fixed 24 hours, always
  returns a token, and \<open>ValidateJWT\<close> accepts that token at every instant \<open>now\<close> that is
  not before the token's \<open>NotBefore\<close>, the second it was issued in, and strictly before
  its \<open>ExpiresAt\<close>. It returns the claims of the token: the issued user id, e-mail and
  role as JSON carries them, which are exactly the issued strings when these are valid
  UTF-8.
\<close>

theorem C2_round_trip:
  assumes "NewNumericDate t_nbf * Second \<le> now"
    and "now < (NewNumericDate t_exp + 86400) * Second"
  shows "\<exists>claims sig.
      GenerateJWT mac t_exp t_iat t_nbf userID mail role = Inr (Compact HS256 claims sig)
    \<and> NotBefore claims = Some (NewNumericDate t_nbf)
    \<and> ExpiresAt claims = Some (NewNumericDate t_exp + 86400)
    \<and> ValidateJWT mac now (Compact HS256 claims sig) = Inr claims
    \<and> UserID claims = json_string userID
    \<and> claim_Email claims = json_string mail
    \<and> claim_Role claims = json_string role
    \<and> (ValidString userID \<longrightarrow> UserID claims = userID)
    \<and> (ValidString mail \<longrightarrow> claim_Email claims = mail)
    \<and> (ValidString role \<longrightarrow> claim_Role claims = role)"
  using assms
  by (simp add: GenerateJWT_eq ValidateJWT_signed Validate_def verifyExpiresAt_def
      verifyNotBefore_def json_string_valid)

text \<open>Alice's token, issued at instant 0 and verified ten seconds later.\<close>

theorem C2_round_trip_witness:
  "GenerateJWT (hmac plain_libs) 0 0 0 ''u1'' ''alice@example.com'' ''user'' = Inr alice_token
   \<and> ValidateJWT (hmac plain_libs) (10 * Second) alice_token = Inr alice_claims
   \<and> UserID alice_claims = ''u1'' \<and> claim_Role alice_claims = ''user''"
proof -
  have n: "NewNumericDate 0 * Second \<le> 10 * Second"
    by (simp add: NewNumericDate_def Second_def)
  have e: "10 * Second < (NewNumericDate 0 + 86400) * Second"
    by (simp add: NewNumericDate_def Second_def)
  from C2_round_trip [OF n e, of "hmac plain_libs" 0 "''u1''" "''alice@example.com''" "''user''"]
  obtain claims sig where
    g: "GenerateJWT (hmac plain_libs) 0 0 0 ''u1'' ''alice@example.com'' ''user''
          = Inr (Compact HS256 claims sig)"
    and v: "ValidateJWT (hmac plain_libs) (10 * Second) (Compact HS256 claims sig) = Inr claims"
    and u: "ValidString ''u1'' \<longrightarrow> UserID claims = ''u1''"
    and r: "ValidString ''user'' \<longrightarrow> claim_Role claims = ''user''"
    by blast
  from g have t: "Compact HS256 claims sig = alice_token"
    by (simp add: alice_token_generated)
  then have c: "claims = alice_claims"
    by (simp add: alice_token_def)
  from u r c have "UserID alice_claims = ''u1'' \<and> claim_Role alice_claims = ''user''"
    by (simp add: example_strings_valid)
  with v t c show ?thesis
    by (simp add: alice_token_generated)
qed

text \<open>
  Against claim C3 as stated, twice. The clock is read at 0.999999999 s for
  \<open>ExpiresAt\<close> and at 1 s for \<open>IssuedAt\<close>: the token says it was issued at second 1
  and expires at second 86400, so at \<open>issuedAt + T - 1\<close>, with \<open>T\<close> the 24 hours, it
  has expired already. And the same token, whose signature is the MAC under the issuer
  secret, is refused at instant 0, which is before its \<open>ExpiresAt\<close>: it is not valid yet.
\<close>

theorem C3_expiry_boundary_counterexample:
  "GenerateJWT (hmac plain_libs) 999999999 1000000000 1000000000
       ''u1'' ''alice@example.com'' ''user'' = Inr boundary_token
   \<and> IssuedAt boundary_claims = Some 1
   \<and> ValidateJWT (hmac plain_libs) ((1 + 86400 - 1) * Second) boundary_token
       = Inl (ErrTokenInvalidClaims [ErrTokenExpired])
   \<and> boundary_token
       = Compact HS256 boundary_claims (hmac plain_libs jwtSecret (HS256, boundary_claims))
   \<and> ExpiresAt boundary_claims = Some 86400
   \<and> 0 < 86400 * Second
   \<and> ValidateJWT (hmac plain_libs) 0 boundary_token
       = Inl (ErrTokenInvalidClaims [ErrTokenNotValidYet])"
  by (simp add: GenerateJWT_eq json_string_valid example_strings_valid
      ValidateJWT_def ParseWithClaims_def Validate_def
      verifyExpiresAt_def verifyNotBefore_def NewNumericDate_def Second_def plain_libs_def
      jwtSecret_def boundary_token_def boundary_claims_def)

text \<open>
  Claim C3, amended. A token string is valid at an instant exactly when it parses, its
  signature is the MAC of its header and claims under the issuer secret with an HMAC
  method, the instant is before its \<open>ExpiresAt\<close> and the instant is not before its
  \<open>NotBefore\<close> (a date the token does not carry is not checked). For a token of
  \<open>GenerateJWT\<close>, whose lifetime \<open>T\<close> is 24 hours, if the clock did not step back
  between the reading for \<open>ExpiresAt\<close> and the one for \<open>IssuedAt\<close>, and the token is
  verified at an instant \<open>now\<close> that is not earlier than the reading for \<open>NotBefore\<close>:
  verification succeeds when \<open>now\<close> is before \<open>ExpiresAt\<close> and fails with
  \<open>ErrTokenExpired\<close> otherwise; \<open>ExpiresAt\<close> is at most \<open>IssuedAt + T\<close>, so it fails
  with \<open>ErrTokenExpired\<close> at every \<open>now\<close> from \<open>IssuedAt + T\<close> on; and when the
  readings for the two dates fall in the same second, \<open>ExpiresAt\<close> is \<open>IssuedAt + T\<close>
  and verification succeeds at \<open>IssuedAt + T - 1\<close>.
\<close>

theorem C3_expiry_boundary:
  assumes "t_exp \<le> t_iat" and "t_nbf \<le> now"
  shows "(ValidateJWT mac instant (Compact a cl sg) = Inr cl' \<longleftrightarrow>
            cl' = cl \<and> a \<in> {HS256, HS384, HS512} \<and> sg = mac jwtSecret (a, cl)
            \<and> (case ExpiresAt cl of None \<Rightarrow> True | Some e \<Rightarrow> instant < e * Second)
            \<and> (case NotBefore cl of None \<Rightarrow> True | Some n \<Rightarrow> n * Second \<le> instant))
    \<and> ValidateJWT mac instant (Text s) = Inl ErrTokenMalformed
    \<and> (\<exists>claims sig iat exp.
          GenerateJWT mac t_exp t_iat t_nbf userID mail role = Inr (Compact HS256 claims sig)
        \<and> IssuedAt claims = Some iat \<and> ExpiresAt claims = Some exp
        \<and> exp \<le> iat + 86400
        \<and> (NewNumericDate t_exp = NewNumericDate t_iat \<longrightarrow> exp = iat + 86400)
        \<and> ValidateJWT mac now (Compact HS256 claims sig)
            = (if now < exp * Second then Inr claims
               else Inl (ErrTokenInvalidClaims [ErrTokenExpired]))
        \<and> ((iat + 86400) * Second \<le> now \<longrightarrow>
             ValidateJWT mac now (Compact HS256 claims sig)
               = Inl (ErrTokenInvalidClaims [ErrTokenExpired]))
        \<and> (NewNumericDate t_exp = NewNumericDate t_iat \<and> now = (iat + 86400 - 1) * Second \<longrightarrow>
             ValidateJWT mac now (Compact HS256 claims sig) = Inr claims))"
proof -
  have n: "\<not> now < NewNumericDate t_nbf * Second"
    using NewNumericDate_le [of t_nbf] assms(2) by simp
  have m: "NewNumericDate t_exp \<le> NewNumericDate t_iat"
    using assms(1) by (rule NewNumericDate_mono)
  have s: "(NewNumericDate t_exp + 86400) * Second \<le> (NewNumericDate t_iat + 86400) * Second"
    using m by (simp add: Second_def)
  have l: "(NewNumericDate t_iat + 86400 - 1) * Second < (NewNumericDate t_iat + 86400) * Second"
    by (simp add: Second_def)
  have issued: "\<exists>claims sig iat exp.
          GenerateJWT mac t_exp t_iat t_nbf userID mail role = Inr (Compact HS256 claims sig)
        \<and> IssuedAt claims = Some iat \<and> ExpiresAt claims = Some exp
        \<and> exp \<le> iat + 86400
        \<and> (NewNumericDate t_exp = NewNumericDate t_iat \<longrightarrow> exp = iat + 86400)
        \<and> ValidateJWT mac now (Compact HS256 claims sig)
            = (if now < exp * Second then Inr claims
               else Inl (ErrTokenInvalidClaims [ErrTokenExpired]))
        \<and> ((iat + 86400) * Second \<le> now \<longrightarrow>
             ValidateJWT mac now (Compact HS256 claims sig)
               = Inl (ErrTokenInvalidClaims [ErrTokenExpired]))
        \<and> (NewNumericDate t_exp = NewNumericDate t_iat \<and> now = (iat + 86400 - 1) * Second \<longrightarrow>
             ValidateJWT mac now (Compact HS256 claims sig) = Inr claims)"
    using n m s l
    by (auto simp add: GenerateJWT_eq ValidateJWT_signed Validate_def verifyExpiresAt_def
        verifyNotBefore_def)
  have general: "ValidateJWT mac instant (Compact a cl sg) = Inr cl' \<longleftrightarrow>
            cl' = cl \<and> a \<in> {HS256, HS384, HS512} \<and> sg = mac jwtSecret (a, cl)
            \<and> (case ExpiresAt cl of None \<Rightarrow> True | Some e \<Rightarrow> instant < e * Second)
            \<and> (case NotBefore cl of None \<Rightarrow> True | Some n \<Rightarrow> n * Second \<le> instant)"
    by (simp add: ValidateJWT_Inr_iff Validate_Nil_iff)
  from general ValidateJWT_Text [of mac instant s] issued show ?thesis
    by blast
qed

text \<open>
  Alice's token, all three clock readings at instant 0: valid in its last second, expired
  one second later, and refused with another signature.
\<close>

theorem C3_expiry_boundary_witness:
  "ValidateJWT (hmac plain_libs) ((0 + 86400 - 1) * Second) alice_token = Inr alice_claims
   \<and> ValidateJWT (hmac plain_libs) ((0 + 86400) * Second) alice_token
       = Inl (ErrTokenInvalidClaims [ErrTokenExpired])
   \<and> ValidateJWT (hmac plain_libs) ((0 + 86400 - 1) * Second)
        (Compact HS256 alice_claims ''forged'') \<noteq> Inr alice_claims"
proof -
  have a: "(0::int) \<le> 0"
    by simp
  have n1: "(0::int) \<le> (0 + 86400) * Second"
    by (simp add: Second_def)
  note inst = C3_expiry_boundary [OF a n1, of "hmac plain_libs" "(0 + 86400 - 1) * Second"
      HS256 alice_claims _ alice_claims "''''" "''u1''" "''alice@example.com''" "''user''"]
  have v1: "ValidateJWT (hmac plain_libs) ((0 + 86400 - 1) * Second) alice_token = Inr alice_claims"
    using inst [of "''your-secret-keyu1user''", THEN conjunct1]
    by (simp add: alice_token_def alice_claims_def plain_libs_def jwtSecret_def Second_def)
  have v3: "ValidateJWT (hmac plain_libs) ((0 + 86400 - 1) * Second)
        (Compact HS256 alice_claims ''forged'') \<noteq> Inr alice_claims"
    using inst [of "''forged''", THEN conjunct1]
    by (simp add: alice_claims_def plain_libs_def jwtSecret_def)
  from inst [of "''forged''", THEN conjunct2, THEN conjunct2]
  obtain claims sig iat where
    g: "GenerateJWT (hmac plain_libs) 0 0 0 ''u1'' ''alice@example.com'' ''user''
          = Inr (Compact HS256 claims sig)"
    and i: "IssuedAt claims = Some iat"
    and x: "(iat + 86400) * Second \<le> (0 + 86400) * Second \<longrightarrow>
         ValidateJWT (hmac plain_libs) ((0 + 86400) * Second) (Compact HS256 claims sig)
           = Inl (ErrTokenInvalidClaims [ErrTokenExpired])"
    by blast
  from g have t: "Compact HS256 claims sig = alice_token"
    by (simp add: alice_token_generated)
  then have "claims = alice_claims"
    by (simp add: alice_token_def)
  with i have "iat = 0"
    by (simp add: alice_claims_def)
  with x t have v2: "ValidateJWT (hmac plain_libs) ((0 + 86400) * Second) alice_token
       = Inl (ErrTokenInvalidClaims [ErrTokenExpired])"
    by simp
  from v1 v2 v3 show ?thesis
    by simp
qed

text \<open>
  Against claim C6 as stated: the clock is read at 1.999999999 s for \<open>ExpiresAt\<close> and at
  2 s for \<open>IssuedAt\<close>. The token is issued at second 2 and expires at second 86401,
  which is not the second it was issued in plus the lifetime of 86400 seconds.
\<close>

theorem C6_issue_counterexample:
  "GenerateJWT (hmac plain_libs) 1999999999 2000000000 2000000000
       ''u2'' ''bob@example.com'' ''user'' = Inr crossing_token
   \<and> IssuedAt crossing_claims = Some 2
   \<and> ExpiresAt crossing_claims = Some 86401
   \<and> ExpiresAt crossing_claims \<noteq> map_option (\<lambda>iat. iat + 86400) (IssuedAt crossing_claims)"
  by (simp add: GenerateJWT_eq json_string_valid example_strings_valid NewNumericDate_def
      Second_def plain_libs_def jwtSecret_def crossing_token_def crossing_claims_def)

text \<open>
  Claim C6, amended. The code has \<open>issue\<close> at one lifetime only, the 24 hours that
  \<open>GenerateJWT\<close> has as a constant in place of a \<open>ttl\<close> parameter; so it fails exactly
  when that lifetime is not positive, which is never. For every user id, e-mail and role
  it succeeds and produces an HS256 token that carries them (as JSON does), with
  \<open>IssuedAt\<close> and \<open>NotBefore\<close> the seconds of the current instant as read for each, and
  \<open>ExpiresAt\<close> the second of the instant read first plus the lifetime, which is
  \<open>IssuedAt\<close> plus the lifetime exactly when these two readings fall in the same second.
  Its signature is the MAC of the header and of all the claims under the process-wide
  secret key, and verification under that key never refuses it for its signature.
\<close>

theorem C6_GenerateJWT_issues:
  "\<exists>claims sig.
      GenerateJWT mac t_exp t_iat t_nbf userID mail role = Inr (Compact HS256 claims sig)
    \<and> (isl (GenerateJWT mac t_exp t_iat t_nbf userID mail role) \<longleftrightarrow> 24 * Hour \<le> 0)
    \<and> UserID claims = json_string userID
    \<and> claim_Email claims = json_string mail
    \<and> claim_Role claims = json_string role
    \<and> IssuedAt claims = Some (NewNumericDate t_iat)
    \<and> NotBefore claims = Some (NewNumericDate t_nbf)
    \<and> ExpiresAt claims = Some (NewNumericDate t_exp + 24 * 3600)
    \<and> (ExpiresAt claims = map_option (\<lambda>iat. iat + 24 * 3600) (IssuedAt claims)
          \<longleftrightarrow> NewNumericDate t_exp = NewNumericDate t_iat)
    \<and> sig = mac jwtSecret (HS256, claims)
    \<and> (\<forall>instant. ValidateJWT mac instant (Compact HS256 claims sig)
          = (case Validate claims instant of
               [] \<Rightarrow> Inr claims
             | e # es \<Rightarrow> Inl (ErrTokenInvalidClaims (e # es))))"
  by (simp add: GenerateJWT_eq ValidateJWT_signed Hour_def Second_def)

text \<open>Alice's token, as issued at instant 0.\<close>

theorem C6_GenerateJWT_issues_witness:
  "GenerateJWT (hmac plain_libs) 0 0 0 ''u1'' ''alice@example.com'' ''user''
     = Inr (Compact HS256 alice_claims ''your-secret-keyu1user'')
   \<and> IssuedAt alice_claims = Some 0 \<and> ExpiresAt alice_claims = Some 86400"
proof -
  from C6_GenerateJWT_issues
    [of "hmac plain_libs" 0 0 0 "''u1''" "''alice@example.com''" "''user''"]
  obtain claims sig where
    g: "GenerateJWT (hmac plain_libs) 0 0 0 ''u1'' ''alice@example.com'' ''user''
          = Inr (Compact HS256 claims sig)"
    and u: "UserID claims = json_string ''u1''"
    and m: "claim_Email claims = json_string ''alice@example.com''"
    and r: "claim_Role claims = json_string ''user''"
    and i: "IssuedAt claims = Some (NewNumericDate 0)"
    and n: "NotBefore claims = Some (NewNumericDate 0)"
    and x: "ExpiresAt claims = Some (NewNumericDate 0 + 24 * 3600)"
    and s: "sig = hmac plain_libs jwtSecret (HS256, claims)"
    by blast
  from u m r i n x have c: "claims = alice_claims"
    by (simp add: alice_claims_def json_string_valid example_strings_valid NewNumericDate_def)
  with s have "sig = ''your-secret-keyu1user''"
    by (simp add: plain_libs_def jwtSecret_def alice_claims_def)
  with g c show ?thesis
    by (simp add: alice_claims_def)
qed

section \<open>The client: rejection, logout and login\<close>

lemma response_interceptor_rejected:
  "response_interceptor (Rejected status) c = (onRejected status c, Inl status)"
  by (simp add: response_interceptor_def)

text \<open>
  Against claim C7 as stated: right after the interceptor has handled the rejection, the
  store's \<open>token\<close> still holds the credential it held before.
\<close>

theorem C7_rejection_counterexample:
  "token signed_in = Some ''t0'' \<and> token (onRejected (Some 401) signed_in) = Some ''t0''"
  by (simp add: onRejected_def signed_in_def)

text \<open>
  Claim C7, amended. Handling a rejection with status 401 removes the persisted
  credential at once, so that no later request has one attached, and sends the browser
  to the login page; the \<open>token\<close> ref of the store is left as it was, and it is absent,
  with \<open>isAuthenticated\<close> false, once that page load has set the store up again.
\<close>

theorem C7_rejection_clears_persisted_credential:
  "localStorage (onRejected (Some 401) c) ''token'' = None
   \<and> href (onRejected (Some 401) c) = ''/login''
   \<and> request_interceptor (onRejected (Some 401) c) config = config
   \<and> token (onRejected (Some 401) c) = token c
   \<and> token (load_page (onRejected (Some 401) c)) = None
   \<and> \<not> isAuthenticated (load_page (onRejected (Some 401) c))"
  by (simp add: onRejected_def request_interceptor_def load_page_def useAuthStore_def
      isAuthenticated_def)

theorem C7_rejection_clears_persisted_credential_witness:
  "localStorage (onRejected (Some 401) signed_in) ''token'' = None
   \<and> href (onRejected (Some 401) signed_in) = ''/login''
   \<and> token (load_page (onRejected (Some 401) signed_in)) = None"
  using C7_rejection_clears_persisted_credential
    [of signed_in "\<lparr>url = ''/users'', headers = Map.empty, data = None :: unit option\<rparr>"]
  by simp

text \<open>
  Claim C8 (idempotent logout). \<open>logout\<close> has no failing statement, so it is a total
  function of the state. From every state, after one call the store's token and the
  persisted token are absent, and a second call changes nothing: both are absent still.
\<close>

theorem C8_logout_idempotent:
  "token (logout c) = None
   \<and> localStorage (logout c) ''token'' = None
   \<and> \<not> isAuthenticated (logout c)
   \<and> logout (logout c) = logout c
   \<and> token (logout (logout c)) = None
   \<and> localStorage (logout (logout c)) ''token'' = None"
  by (simp add: logout_def isAuthenticated_def)

theorem C8_logout_idempotent_witness:
  "token (logout (logout signed_in)) = None
   \<and> localStorage (logout (logout signed_in)) ''token'' = None
   \<and> logout (logout signed_in) = logout signed_in"
  using C8_logout_idempotent [of signed_in]
  by simp

text \<open>
  Against claim C9 as stated: a client that holds a persisted token logs in and the
  backend answers 401; the call rejects, and the persisted token is gone.
\<close>

theorem C9_failed_login_counterexample:
  "localStorage signed_in ''token'' = Some ''t0''
   \<and> snd (login (\<lambda>request. Rejected (Some 401)) alice_credentials signed_in) = Inl (Some 401)
   \<and> localStorage (fst (login (\<lambda>request. Rejected (Some 401)) alice_credentials signed_in))
        ''token'' = None"
  by (simp add: login_def authApi_login_def client_post_def response_interceptor_rejected
      onRejected_def signed_in_def)

text \<open>
  Claim C9, amended. When the API call of a \<open>login\<close> rejects, the error propagates to
  the caller, the store's token and user are what they were before the call, and
  \<open>loading\<close> is false again; the persisted token is unchanged too, unless the call was
  rejected with status 401, in which case the response interceptor has removed it.
\<close>

theorem C9_failed_login:
  assumes "transport (request_interceptor (c\<lparr>loading := True\<rparr>)
             \<lparr>url = ''/auth/login'', headers = Map.empty, data = Some credentials\<rparr>)
           = Rejected status"
  shows "snd (login transport credentials c) = Inl status
    \<and> token (fst (login transport credentials c)) = token c
    \<and> user (fst (login transport credentials c)) = user c
    \<and> loading (fst (login transport credentials c)) = False
    \<and> localStorage (fst (login transport credentials c))
        = (if status = Some 401 then (localStorage c)(''token'' := None) else localStorage c)"
  using assms
  by (simp add: login_def authApi_login_def client_post_def response_interceptor_rejected
      onRejected_def)

theorem C9_failed_login_witness:
  "snd (login (\<lambda>request. Rejected (Some 500)) alice_credentials signed_in) = Inl (Some 500)
   \<and> token (fst (login (\<lambda>request. Rejected (Some 500)) alice_credentials signed_in))
       = Some ''t0''
   \<and> loading (fst (login (\<lambda>request. Rejected (Some 500)) alice_credentials signed_in)) = False
   \<and> localStorage (fst (login (\<lambda>request. Rejected (Some 500)) alice_credentials signed_in))
        ''token'' = Some ''t0''"
proof -
  have r: "(\<lambda>request. Rejected (Some 500) :: AuthResponse reply)
      (request_interceptor (signed_in\<lparr>loading := True\<rparr>)
         \<lparr>url = ''/auth/login'', headers = Map.empty, data = Some alice_credentials\<rparr>)
      = Rejected (Some 500)"
    by simp
  from C9_failed_login [OF r] show ?thesis
    by (simp add: signed_in_def)
qed

text \<open>
  Against claim C10 as stated: the persisted token is the empty string; the store loads
  it, its token is not null, and \<open>isAuthenticated\<close> is false.
\<close>

theorem C10_empty_token_counterexample:
  "token (useAuthStore remembered_empty) = Some ''''
   \<and> token (useAuthStore remembered_empty) \<noteq> None
   \<and> \<not> isAuthenticated (useAuthStore remembered_empty)"
  by (simp add: useAuthStore_def isAuthenticated_def remembered_empty_def)

text \<open>
  Claim C10, amended. In every state \<open>isAuthenticated\<close> is true exactly when the
  store's token is a non-empty string (neither null nor empty), and this holds through
  every operation: after the initial load it says whether the persisted token is a
  non-empty string, after a login that succeeded whether the token of the response is
  non-empty, after a login that failed what it said before, and after logout it is false.
\<close>

theorem C10_isAuthenticated_invariant:
  "isAuthenticated c = (\<exists>t. token c = Some t \<and> t \<noteq> [])
   \<and> isAuthenticated (useAuthStore c) = (\<exists>t. localStorage c ''token'' = Some t \<and> t \<noteq> [])
   \<and> isAuthenticated (fst (login transport credentials c))
       = (case transport (request_interceptor (c\<lparr>loading := True\<rparr>)
                 \<lparr>url = ''/auth/login'', headers = Map.empty, data = Some credentials\<rparr>) of
            Fulfilled response \<Rightarrow> response_token response \<noteq> []
          | Rejected status \<Rightarrow> isAuthenticated c)
   \<and> isAuthenticated (logout c) = False"
  by (auto simp add: isAuthenticated_def useAuthStore_def login_def authApi_login_def
      client_post_def response_interceptor_def onRejected_def logout_def
      split: option.splits reply.splits)

theorem C10_isAuthenticated_invariant_witness:
  "isAuthenticated signed_in \<and> \<not> isAuthenticated (logout signed_in)
   \<and> \<not> isAuthenticated (useAuthStore remembered_empty)"
  using C10_isAuthenticated_invariant [of signed_in]
    C10_isAuthenticated_invariant [of remembered_empty]
  by (simp add: signed_in_def remembered_empty_def)

end
